theory Spec2Isabelle
  imports Complex_Main "HOL-Library.Multiset" "HOL-Library.Log_Nat"
begin

text \<open>
  The server of \<open>src/index.js\<close>: two collections, products and cart documents, behind
  four routes. Each handler is a function from the store and the request to the new
  store and the response; the libraries the handlers call (the upload middleware, the
  object mapper, \<open>parseFloat\<close>) are modelled as far as the handlers depend on them.
  Requests are served one after the other. A text is kept as the bytes of its UTF-8
  encoding.
\<close>

section \<open>JavaScript values used by the handlers\<close>

text \<open>
  A JavaScript Number is a binary64 value: \<open>NaN\<close>, one of the two infinities, or a
  finite value, kept as the rational it denotes. (The two zeros are not told apart. The
  type has a value for every rational; the operations below round their results to
  binary64, and an integer of magnitude up to \<open>2 ^ 53\<close> is a binary64 value.)
\<close>

datatype number = NaN | PosInfinity | NegInfinity | Finite rat

text \<open>
  Rounding a rational to binary64, to the nearest value and to the even significand on
  a tie. \<open>exponent a\<close> is the \<open>e\<close> with \<open>2 ^ e \<le> a < 2 ^ (e + 1)\<close>, for positive \<open>a\<close>; below
  \<open>2 ^ -1022\<close> the values are subnormal and keep that exponent. The significand has 53
  bits, so the values around \<open>a\<close> are the multiples of \<open>2 ^ (e - 52)\<close>; a result of
  \<open>2 ^ 1024\<close> or more overflows to infinity.
\<close>

definition pow2 :: "int \<Rightarrow> rat" where
  "pow2 e = (if 0 \<le> e then 2 ^ nat e else 1 / 2 ^ nat (- e))"

definition round_half_even :: "rat \<Rightarrow> int" where
  "round_half_even x =
     (let f = \<lfloor>x\<rfloor>; d = x - of_int f
      in if d < 1 / 2 then f else if 1 / 2 < d then f + 1 else if even f then f else f + 1)"

definition exponent :: "rat \<Rightarrow> int" where
  "exponent a = (if 1 \<le> a then bitlen \<lfloor>a\<rfloor> - 1 else - bitlen (\<lceil>1 / a\<rceil> - 1))"

definition round_magnitude :: "rat \<Rightarrow> rat option" where
  "round_magnitude a =
     (let e = max (exponent a) (- 1022);
          m = round_half_even (a / pow2 (e - 52))
      in if 1023 < e \<or> (e = 1023 \<and> m = 2 ^ 53) then None
         else Some (of_int m * pow2 (e - 52)))"

definition round64 :: "rat \<Rightarrow> number" where
  "round64 x =
     (if x = 0 then Finite 0
      else if 0 < x then (case round_magnitude x of None \<Rightarrow> PosInfinity | Some r \<Rightarrow> Finite r)
      else (case round_magnitude (- x) of None \<Rightarrow> NegInfinity | Some r \<Rightarrow> Finite (- r)))"

text \<open>\<open>ToBoolean\<close> on a Number: \<open>0\<close> and \<open>NaN\<close> are falsy.\<close>

fun truthy :: "number \<Rightarrow> bool" where
  "truthy NaN = False"
| "truthy (Finite r) = (r \<noteq> 0)"
| "truthy PosInfinity = True"
| "truthy NegInfinity = True"

text \<open>The operator \<open>+\<close> on two Numbers: the exact sum, rounded.\<close>

fun num_add :: "number \<Rightarrow> number \<Rightarrow> number" where
  "num_add (Finite a) (Finite b) = round64 (a + b)"
| "num_add (Finite a) PosInfinity = PosInfinity"
| "num_add (Finite a) NegInfinity = NegInfinity"
| "num_add PosInfinity (Finite b) = PosInfinity"
| "num_add PosInfinity PosInfinity = PosInfinity"
| "num_add PosInfinity NegInfinity = NaN"
| "num_add NegInfinity (Finite b) = NegInfinity"
| "num_add NegInfinity NegInfinity = NegInfinity"
| "num_add NegInfinity PosInfinity = NaN"
| "num_add NaN y = NaN"
| "num_add (Finite a) NaN = NaN"
| "num_add PosInfinity NaN = NaN"
| "num_add NegInfinity NaN = NaN"

text \<open>The comparison \<open>\<le>\<close> on two Numbers (false as soon as one side is \<open>NaN\<close>).\<close>

fun num_le :: "number \<Rightarrow> number \<Rightarrow> bool" where
  "num_le (Finite a) (Finite b) = (a \<le> b)"
| "num_le (Finite a) PosInfinity = True"
| "num_le (Finite a) NegInfinity = False"
| "num_le PosInfinity (Finite b) = False"
| "num_le PosInfinity PosInfinity = True"
| "num_le PosInfinity NegInfinity = False"
| "num_le NegInfinity (Finite b) = True"
| "num_le NegInfinity PosInfinity = True"
| "num_le NegInfinity NegInfinity = True"
| "num_le NaN y = False"
| "num_le (Finite a) NaN = False"
| "num_le PosInfinity NaN = False"
| "num_le NegInfinity NaN = False"

fun num_neg :: "number \<Rightarrow> number" where
  "num_neg NaN = NaN"
| "num_neg PosInfinity = NegInfinity"
| "num_neg NegInfinity = PosInfinity"
| "num_neg (Finite r) = Finite (- r)"

subsection \<open>The values of a JSON body\<close>

datatype jvalue =
    JNull
  | JBool bool
  | JNumber number
  | JString string
  | JArray "jvalue list"
  | JObject "(string \<times> jvalue) list"

text \<open>\<open>ToBoolean\<close>: \<open>null\<close>, \<open>false\<close>, \<open>0\<close>, \<open>NaN\<close> and the empty text are falsy.\<close>

fun truthy_value :: "jvalue \<Rightarrow> bool" where
  "truthy_value JNull = False"
| "truthy_value (JBool b) = b"
| "truthy_value (JNumber n) = truthy n"
| "truthy_value (JString t) = (t \<noteq> [])"
| "truthy_value (JArray vs) = True"
| "truthy_value (JObject kvs) = True"

text \<open>
  What the language and the object mapper do with a value that is not a Number is not
  modelled; it is a parameter of the handlers. \<open>add_other x v\<close> is \<open>x + v\<close> for a Number
  \<open>x\<close> and such a value \<open>v\<close> (for a text, the concatenation); \<open>cast_other v\<close> is the
  schema's cast of \<open>v\<close> to Number, \<open>None\<close> when the cast fails.
\<close>

record coercions =
  add_other :: "number \<Rightarrow> jvalue \<Rightarrow> jvalue"
  cast_other :: "jvalue \<Rightarrow> number option"

text \<open>\<open>x += v\<close> for a Number \<open>x\<close> (line 127).\<close>

definition add_assign :: "coercions \<Rightarrow> number \<Rightarrow> jvalue \<Rightarrow> jvalue" where
  "add_assign js x v = (case v of JNumber n \<Rightarrow> JNumber (num_add x n) | _ \<Rightarrow> add_other js x v)"

text \<open>The cast of a value to the schema type Number (line 39): \<open>NaN\<close> does not cast.\<close>

definition cast_number :: "coercions \<Rightarrow> jvalue \<Rightarrow> number option" where
  "cast_number js v =
     (case v of JNumber n \<Rightarrow> if n = NaN then None else Some n | _ \<Rightarrow> cast_other js v)"

subsection \<open>The global function parseFloat\<close>

text \<open>
  \<open>parseFloat\<close> (lines 88, 89 and 91 of \<open>src/index.js\<close>) skips leading white space and
  reads the longest prefix that is a decimal literal: an optional sign, then
  \<open>Infinity\<close>, or digits with an optional fraction and an optional exponent. What
  follows the literal is ignored; when there is no such prefix the result is \<open>NaN\<close>.
  The value read is rounded to binary64.

  White space is TAB, LF, VT, FF, CR, SP, and beyond ASCII the no-break space U+00A0,
  U+1680, U+2000 to U+200A, the separators U+2028 and U+2029, U+202F, U+205F, U+3000
  and the byte order mark U+FEFF, each here in its UTF-8 bytes.
\<close>

definition ws3 :: "string list" where
  "ws3 =
     [[CHR 0xE1, CHR 0x9A, CHR 0x80],
      [CHR 0xE2, CHR 0x80, CHR 0x80], [CHR 0xE2, CHR 0x80, CHR 0x81],
      [CHR 0xE2, CHR 0x80, CHR 0x82], [CHR 0xE2, CHR 0x80, CHR 0x83],
      [CHR 0xE2, CHR 0x80, CHR 0x84], [CHR 0xE2, CHR 0x80, CHR 0x85],
      [CHR 0xE2, CHR 0x80, CHR 0x86], [CHR 0xE2, CHR 0x80, CHR 0x87],
      [CHR 0xE2, CHR 0x80, CHR 0x88], [CHR 0xE2, CHR 0x80, CHR 0x89],
      [CHR 0xE2, CHR 0x80, CHR 0x8A],
      [CHR 0xE2, CHR 0x80, CHR 0xA8], [CHR 0xE2, CHR 0x80, CHR 0xA9],
      [CHR 0xE2, CHR 0x80, CHR 0xAF], [CHR 0xE2, CHR 0x81, CHR 0x9F],
      [CHR 0xE3, CHR 0x80, CHR 0x80], [CHR 0xEF, CHR 0xBB, CHR 0xBF]]"

fun skip_ws :: "string \<Rightarrow> string" where
  "skip_ws [] = []"
| "skip_ws (c # s) =
     (if c \<in> set [CHR 0x09, CHR 0x0A, CHR 0x0B, CHR 0x0C, CHR 0x0D, CHR 0x20] then skip_ws s
      else if c = CHR 0xC2 \<and> take 1 s = [CHR 0xA0] then skip_ws (drop 1 s)
      else if c # take 2 s \<in> set ws3 then skip_ws (drop 2 s)
      else c # s)"

definition is_digit :: "char \<Rightarrow> bool" where
  "is_digit c = (c \<in> set ''0123456789'')"

definition digit_val :: "char \<Rightarrow> nat" where
  "digit_val c = of_char c - 48"

definition digits_val :: "string \<Rightarrow> nat" where
  "digits_val ds = foldl (\<lambda>a c. 10 * a + digit_val c) 0 ds"

definition pow10 :: "int \<Rightarrow> rat" where
  "pow10 e = (if 0 \<le> e then 10 ^ nat e else 1 / 10 ^ nat (- e))"

text \<open>
  The exponent part at the head of the rest of the input: \<open>e\<close> or \<open>E\<close>, an optional
  sign, and at least one digit. Anything else is no exponent part (value \<open>0\<close>).
\<close>

definition str_exponent :: "string \<Rightarrow> int" where
  "str_exponent r =
     (case r of
        [] \<Rightarrow> 0
      | e # t \<Rightarrow>
          if e = CHR ''e'' \<or> e = CHR ''E'' then
            (case t of
               [] \<Rightarrow> 0
             | c # u \<Rightarrow>
                 if c = CHR ''+'' then int (digits_val (takeWhile is_digit u))
                 else if c = CHR ''-'' then - int (digits_val (takeWhile is_digit u))
                 else int (digits_val (takeWhile is_digit t)))
          else 0)"

definition str_unsigned :: "string \<Rightarrow> number" where
  "str_unsigned s =
     (if take 8 s = ''Infinity'' then PosInfinity
      else
        let ip = takeWhile is_digit s;
            r1 = dropWhile is_digit s;
            fp = (case r1 of [] \<Rightarrow> [] | c # t \<Rightarrow> if c = CHR ''.'' then takeWhile is_digit t else []);
            r2 = (case r1 of [] \<Rightarrow> [] | c # t \<Rightarrow> if c = CHR ''.'' then dropWhile is_digit t else r1)
        in if ip = [] \<and> fp = [] then NaN
           else round64 (of_nat (digits_val (ip @ fp)) * pow10 (str_exponent r2 - int (length fp))))"

definition parseFloat :: "string \<Rightarrow> number" where
  "parseFloat s =
     (case skip_ws s of
        [] \<Rightarrow> NaN
      | c # r \<Rightarrow>
          if c = CHR ''+'' then str_unsigned r
          else if c = CHR ''-'' then num_neg (str_unsigned r)
          else str_unsigned (c # r))"

subsection \<open>Object ids\<close>

text \<open>
  An ObjectId is a 96-bit value, kept here as the natural number it denotes. A query
  casts the text it is given to the type of the path it filters on: \<open>findById\<close> (line
  117) and \<open>findOne({ productId })\<close> (line 123) cast \<open>productId\<close> to an ObjectId. The
  cast accepts a string of 24 hexadecimal digits; for text that is no id the query
  rejects with a cast error, which the handler's \<open>catch\<close> turns into a 500. (Older
  versions of the driver also took any string of 12 bytes for an id; the model follows
  the current one.)
\<close>

type_synonym objectid = nat

definition is_hex :: "char \<Rightarrow> bool" where
  "is_hex c = (c \<in> set ''0123456789abcdefABCDEF'')"

definition hex_val :: "char \<Rightarrow> nat" where
  "hex_val c =
     (if c \<in> set ''0123456789'' then of_char c - 48
      else if c \<in> set ''abcdef'' then of_char c - 87
      else of_char c - 55)"

definition castObjectId :: "string \<Rightarrow> objectid option" where
  "castObjectId s =
     (if length s = 24 \<and> list_all is_hex s
      then Some (foldl (\<lambda>a c. 16 * a + hex_val c) 0 s)
      else None)"

section \<open>The two schemas and the store\<close>

text \<open>\<open>productSchema\<close>, lines 24 to 32, with the \<open>_id\<close> the mapper adds.\<close>

record product =
  product_id :: objectid
  title :: string
  price :: number
  discount :: number
  itemType :: string
  rating :: number
  images :: "string list"
  createdAt :: nat

text \<open>\<open>cartSchema\<close>, lines 37 to 41, with the \<open>_id\<close> the mapper adds.\<close>

record cart_item =
  cart_id :: objectid
  productId :: objectid
  quantity :: number
  addedAt :: nat

text \<open>
  The two collections, each in its storage order, and the generator of object ids. The
  driver's generator never hands out the same id twice within a process; the model
  keeps it as a counter. Storage itself never fails in this model: the \<open>catch\<close>
  branches are reached by cast and validation errors only.
\<close>

record db =
  products :: "product list"
  cart :: "cart_item list"
  next_id :: objectid

definition init_db :: db where
  "init_db = \<lparr>products = [], cart = [], next_id = 0\<rparr>"

subsection \<open>Validation on save\<close>

text \<open>
  \<open>save()\<close> validates the document against its schema and rejects when a path fails:
  a Number path that holds \<open>NaN\<close> (the cast fails), a required path that is empty,
  \<open>itemType\<close> outside its \<open>enum\<close>, \<open>rating\<close> outside \<open>min: 0, max: 5\<close>. The cart
  schema has no validator; a quantity that does not cast to Number fails the save.
\<close>

definition valid_product :: "product \<Rightarrow> bool" where
  "valid_product p =
     (title p \<noteq> [] \<and>
      price p \<noteq> NaN \<and>
      discount p \<noteq> NaN \<and>
      itemType p \<in> set [''cold'', ''organic'', ''regular''] \<and>
      rating p \<noteq> NaN \<and> num_le (Finite 0) (rating p) \<and> num_le (rating p) (Finite 5))"

text \<open>\<open>product.save()\<close> of a new document (line 95): \<open>None\<close> is the rejected promise.\<close>

definition save_product :: "db \<Rightarrow> product \<Rightarrow> db option" where
  "save_product s p =
     (if valid_product p then Some (s\<lparr>products := products s @ [p]\<rparr>) else None)"

text \<open>\<open>cartItem.save()\<close> of a new document (line 135).\<close>

definition insert_cart_item :: "db \<Rightarrow> cart_item \<Rightarrow> db" where
  "insert_cart_item s c = s\<lparr>cart := cart s @ [c]\<rparr>"

text \<open>\<open>cartItem.save()\<close> of a document that was read from the collection (line 128):
  the stored document with the same \<open>_id\<close> is replaced.\<close>

definition update_cart_item :: "db \<Rightarrow> cart_item \<Rightarrow> db" where
  "update_cart_item s c = s\<lparr>cart := map (\<lambda>d. if cart_id d = cart_id c then c else d) (cart s)\<rparr>"

subsection \<open>Queries\<close>

text \<open>\<open>Product.findById\<close> (line 117) and \<open>Cart.findOne({ productId })\<close> (line 123):
  the first document of the collection that matches, or \<open>null\<close>.\<close>

definition findById :: "product list \<Rightarrow> objectid \<Rightarrow> product option" where
  "findById ps i = find (\<lambda>p. product_id p = i) ps"

definition findOne :: "cart_item list \<Rightarrow> objectid \<Rightarrow> cart_item option" where
  "findOne cs i = find (\<lambda>c. productId c = i) cs"

text \<open>\<open>Product.find().sort({ createdAt: -1 })\<close> (line 151): all documents, the
  latest first. The store does not say how it orders equal keys; the model keeps
  one order for them.\<close>

definition find_sorted :: "product list \<Rightarrow> product list" where
  "find_sorted ps = rev (sort_key createdAt ps)"

text \<open>\<open>Cart.find().populate('productId')\<close> (line 162): every cart document with
  the product its reference resolves to (\<open>null\<close> when there is none).\<close>

definition find_populated :: "db \<Rightarrow> (cart_item \<times> product option) list" where
  "find_populated s = map (\<lambda>c. (c, findById (products s) (productId c))) (cart s)"

section \<open>Responses\<close>

datatype body =
    ErrorJson string
  | ProductCreated string product
  | CartAdded string cart_item
  | ProductList "product list"
  | CartList "(cart_item \<times> product option) list"

record response =
  status :: nat
  json :: body

section \<open>The upload middleware\<close>

text \<open>
  One file part of a multipart body: the form field it came under, its file name and
  media type as the client sent them, its length in bytes, and \<open>path\<close>, where the
  disk storage of lines 46 to 57 puts it (\<open>uploads/\<close>, the time of arrival, the
  extension of the original name).
\<close>

record upfile =
  fieldname :: string
  originalname :: string
  mimetype :: string
  size_bytes :: nat
  path :: string

datatype multer_code = LIMIT_FILE_SIZE | LIMIT_UNEXPECTED_FILE | LIMIT_FIELD_VALUE

text \<open>An error handed to \<open>next\<close>: an instance of \<open>multer.MulterError\<close>, or a plain
  \<open>Error\<close> with its message.\<close>

datatype upload_error = MulterError multer_code | Error string

text \<open>The message the library gives each of its codes.\<close>

fun multer_message :: "multer_code \<Rightarrow> string" where
  "multer_message LIMIT_FILE_SIZE = ''File too large''"
| "multer_message LIMIT_UNEXPECTED_FILE = ''Unexpected field''"
| "multer_message LIMIT_FIELD_VALUE = ''Field value too long''"

text \<open>\<open>fileFilter\<close>, lines 59 to 65: \<open>None\<close> is \<open>cb(null, true)\<close>.\<close>

definition fileFilter :: "upfile \<Rightarrow> upload_error option" where
  "fileFilter file =
     (if mimetype file = ''image/jpeg'' \<or> mimetype file = ''image/png'' \<or> mimetype file = ''image/jpg''
      then None
      else Some (Error ''Only JPEG, JPG, and PNG images are allowed!''))"

text \<open>\<open>limits: { fileSize: 1024 * 1024 * 5 }\<close>, line 69.\<close>

definition fileSize :: nat where
  "fileSize = 1024 * 1024 * 5"

text \<open>
  \<open>upload.array('images', 5)\<close>, line 76, on the file parts. The library takes them in
  the order of the body and stops at the first error. A part without a file name is no
  file: it is skipped, neither counted nor stored. For each other part: a part under
  another field, or one more than the count allows, is \<open>LIMIT_UNEXPECTED_FILE\<close>; then
  the filter of the application runs; then the part is stored, and one longer than the
  limit is \<open>LIMIT_FILE_SIZE\<close>. \<open>left\<close> is the number of files the field may still take.
\<close>

fun upload_parts :: "nat \<Rightarrow> upfile list \<Rightarrow> upload_error + upfile list" where
  "upload_parts left [] = Inr []"
| "upload_parts left (file # rest) =
     (if originalname file = [] then upload_parts left rest
      else if fieldname file \<noteq> ''images'' \<or> left = 0 then Inl (MulterError LIMIT_UNEXPECTED_FILE)
      else (case fileFilter file of
              Some e \<Rightarrow> Inl e
            | None \<Rightarrow>
                if fileSize < size_bytes file then Inl (MulterError LIMIT_FILE_SIZE)
                else (case upload_parts (left - 1) rest of
                        Inl e \<Rightarrow> Inl e
                      | Inr stored \<Rightarrow> Inr (file # stored))))"

text \<open>The error handling middleware, lines 171 to 178.\<close>

fun error_middleware :: "upload_error \<Rightarrow> response" where
  "error_middleware (MulterError c) =
     \<lparr>status = 400, json = ErrorJson (''File upload error: '' @ multer_message c)\<rparr>"
| "error_middleware (Error m) =
     \<lparr>status = 500, json = ErrorJson ''Something went wrong!''\<rparr>"

section \<open>POST /api/products\<close>

text \<open>
  The request is a multipart form, the kind of body that carries files: the five text
  fields the handler reads, each absent or sent once, and the file parts of the body in
  their order. The fields of a form are texts.
\<close>

record product_request =
  body_title :: "string option"
  body_price :: "string option"
  body_discount :: "string option"
  body_itemType :: "string option"
  body_rating :: "string option"
  parts :: "upfile list"

text \<open>
  The middleware on the whole form. The library takes a text field of up to 1 MB, its
  default; a longer one is \<open>LIMIT_FIELD_VALUE\<close>. Which error is reported when both a
  field and a file are refused depends on their order in the body; here the fields come
  first, and no property below depends on it.
\<close>

definition fieldSize :: nat where
  "fieldSize = 1024 * 1024"

definition too_long :: "string option \<Rightarrow> bool" where
  "too_long x = (case x of None \<Rightarrow> False | Some t \<Rightarrow> fieldSize < length t)"

definition upload_array :: "product_request \<Rightarrow> upload_error + upfile list" where
  "upload_array req =
     (if too_long (body_title req) \<or> too_long (body_price req) \<or> too_long (body_discount req) \<or>
         too_long (body_itemType req) \<or> too_long (body_rating req)
      then Inl (MulterError LIMIT_FIELD_VALUE)
      else upload_parts 5 (parts req))"

text \<open>\<open>x ? parseFloat(x) : 0\<close> (lines 89 and 91): an absent or empty text is falsy.\<close>

definition parse_or_zero :: "string option \<Rightarrow> number" where
  "parse_or_zero x =
     (case x of None \<Rightarrow> Finite 0 | Some t \<Rightarrow> if t = [] then Finite 0 else parseFloat t)"

text \<open>\<open>itemType || 'regular'\<close> (line 90).\<close>

definition or_regular :: "string option \<Rightarrow> string" where
  "or_regular x = (case x of None \<Rightarrow> ''regular'' | Some t \<Rightarrow> if t = [] then ''regular'' else t)"

text \<open>
  The handler, lines 77 to 105, run at time \<open>now\<close> on the files the middleware stored.
  \<open>new Product\<close> draws an id whether or not the save succeeds.
\<close>

definition create_product :: "nat \<Rightarrow> db \<Rightarrow> product_request \<Rightarrow> upfile list \<Rightarrow> db \<times> response" where
  "create_product now s req files =
     (case (body_title req, body_price req) of
        (Some t, Some p) \<Rightarrow>
          if t = [] \<or> p = [] then
            (s, \<lparr>status = 400, json = ErrorJson ''Title and price are required''\<rparr>)
          else
            let imagePaths = map path files;
                doc = \<lparr>product_id = next_id s,
                       title = t,
                       price = parseFloat p,
                       discount = parse_or_zero (body_discount req),
                       itemType = or_regular (body_itemType req),
                       rating = parse_or_zero (body_rating req),
                       images = imagePaths,
                       createdAt = now\<rparr>;
                s1 = s\<lparr>next_id := Suc (next_id s)\<rparr>
            in (case save_product s1 doc of
                  None \<Rightarrow> (s1, \<lparr>status = 500, json = ErrorJson ''Internal server error''\<rparr>)
                | Some s2 \<Rightarrow>
                    (s2, \<lparr>status = 201, json = ProductCreated ''Product created successfully'' doc\<rparr>))
      | _ \<Rightarrow> (s, \<lparr>status = 400, json = ErrorJson ''Title and price are required''\<rparr>))"

text \<open>The route, line 76: the upload middleware, then the handler, or the error
  middleware when the upload fails.\<close>

definition post_products :: "nat \<Rightarrow> db \<Rightarrow> product_request \<Rightarrow> db \<times> response" where
  "post_products now s req =
     (case upload_array req of
        Inl e \<Rightarrow> (s, error_middleware e)
      | Inr files \<Rightarrow> create_product now s req files)"

section \<open>POST /api/cart\<close>

text \<open>The JSON body: \<open>productId\<close> absent or a text, \<open>quantity\<close> absent or any value.\<close>

record cart_request =
  body_productId :: "string option"
  body_quantity :: "jvalue option"

text \<open>\<open>quantity || 1\<close> (lines 127 and 133).\<close>

definition or_one :: "jvalue option \<Rightarrow> jvalue" where
  "or_one q =
     (case q of None \<Rightarrow> JNumber (Finite 1) | Some v \<Rightarrow> if truthy_value v then v else JNumber (Finite 1))"

text \<open>
  The handler, lines 108 to 146, run at time \<open>now\<close>. Setting \<open>quantity\<close> casts the value
  to Number; when the cast fails the save rejects and the \<open>catch\<close> answers 500.
\<close>

definition add_to_cart :: "coercions \<Rightarrow> nat \<Rightarrow> db \<Rightarrow> cart_request \<Rightarrow> db \<times> response" where
  "add_to_cart js now s req =
     (case body_productId req of
        None \<Rightarrow> (s, \<lparr>status = 400, json = ErrorJson ''Product ID is required''\<rparr>)
      | Some pid \<Rightarrow>
          if pid = [] then (s, \<lparr>status = 400, json = ErrorJson ''Product ID is required''\<rparr>)
          else
            (case castObjectId pid of
               None \<Rightarrow> (s, \<lparr>status = 500, json = ErrorJson ''Internal server error''\<rparr>)
             | Some i \<Rightarrow>
                 (case findById (products s) i of
                    None \<Rightarrow> (s, \<lparr>status = 404, json = ErrorJson ''Product not found''\<rparr>)
                  | Some existing \<Rightarrow>
                      (case findOne (cart s) i of
                         Some found \<Rightarrow>
                           (case cast_number js
                                   (add_assign js (quantity found) (or_one (body_quantity req))) of
                              None \<Rightarrow> (s, \<lparr>status = 500, json = ErrorJson ''Internal server error''\<rparr>)
                            | Some n \<Rightarrow>
                                (update_cart_item s (found\<lparr>quantity := n\<rparr>),
                                 \<lparr>status = 201,
                                  json = CartAdded ''Product added to cart successfully''
                                    (found\<lparr>quantity := n\<rparr>)\<rparr>))
                       | None \<Rightarrow>
                           (case cast_number js (or_one (body_quantity req)) of
                              None \<Rightarrow>
                                (s\<lparr>next_id := Suc (next_id s)\<rparr>,
                                 \<lparr>status = 500, json = ErrorJson ''Internal server error''\<rparr>)
                            | Some n \<Rightarrow>
                                (insert_cart_item (s\<lparr>next_id := Suc (next_id s)\<rparr>)
                                   \<lparr>cart_id = next_id s, productId = i, quantity = n, addedAt = now\<rparr>,
                                 \<lparr>status = 201,
                                  json = CartAdded ''Product added to cart successfully''
                                    \<lparr>cart_id = next_id s, productId = i, quantity = n,
                                     addedAt = now\<rparr>\<rparr>))))))"

section \<open>GET /api/products and GET /api/cart\<close>

definition get_products :: "db \<Rightarrow> db \<times> response" where
  "get_products s = (s, \<lparr>status = 200, json = ProductList (find_sorted (products s))\<rparr>)"

definition get_cart :: "db \<Rightarrow> db \<times> response" where
  "get_cart s = (s, \<lparr>status = 200, json = CartList (find_populated s)\<rparr>)"

section \<open>The server as a sequence of requests\<close>

text \<open>A request with the time at which its handler runs.\<close>

datatype request =
    PostProducts nat product_request
  | PostCart nat cart_request
  | GetProducts
  | GetCart

fun handle :: "coercions \<Rightarrow> db \<Rightarrow> request \<Rightarrow> db \<times> response" where
  "handle js s (PostProducts now req) = post_products now s req"
| "handle js s (PostCart now req) = add_to_cart js now s req"
| "handle js s GetProducts = get_products s"
| "handle js s GetCart = get_cart s"

text \<open>The store after a sequence of requests, served one after the other.\<close>

fun run :: "coercions \<Rightarrow> db \<Rightarrow> request list \<Rightarrow> db" where
  "run js s [] = s"
| "run js s (r # rs) = run js (fst (handle js s r)) rs"

text \<open>The responses to a sequence of requests.\<close>

fun responses :: "coercions \<Rightarrow> db \<Rightarrow> request list \<Rightarrow> response list" where
  "responses js s [] = []"
| "responses js s (r # rs) = snd (handle js s r) # responses js (fst (handle js s r)) rs"

section \<open>Notions used to state the properties\<close>

text \<open>
  What holds of every store the server can reach: ids are unique within a collection and
  below the generator's next value, and no two cart documents refer to the same product.
\<close>

definition db_inv :: "db \<Rightarrow> bool" where
  "db_inv s =
     (distinct (map product_id (products s)) \<and>
      distinct (map cart_id (cart s)) \<and>
      distinct (map productId (cart s)) \<and>
      list_all (\<lambda>p. product_id p < next_id s) (products s) \<and>
      list_all (\<lambda>c. cart_id c < next_id s) (cart s))"

text \<open>The cart documents that refer to product \<open>i\<close>.\<close>

definition lines_of :: "objectid \<Rightarrow> db \<Rightarrow> cart_item list" where
  "lines_of i s = filter (\<lambda>c. productId c = i) (cart s)"

text \<open>The product a POST /api/cart names, when its \<open>productId\<close> is an object id.\<close>

definition names_product :: "cart_request \<Rightarrow> objectid option" where
  "names_product req = (case body_productId req of None \<Rightarrow> None | Some pid \<Rightarrow> castObjectId pid)"

text \<open>
  The successful POST /api/cart calls for product \<open>i\<close> among the requests \<open>rs\<close>, served
  one after the other from store \<open>s\<close>: the \<open>quantity\<close> field of each, in order.
\<close>

fun added :: "coercions \<Rightarrow> objectid \<Rightarrow> db \<Rightarrow> request list \<Rightarrow> jvalue option list" where
  "added js i s [] = []"
| "added js i s (PostCart now req # rs) =
     (if names_product req = Some i \<and> status (snd (add_to_cart js now s req)) = 201
      then [body_quantity req] else []) @
     added js i (fst (add_to_cart js now s req)) rs"
| "added js i s (PostProducts now req # rs) = added js i (fst (post_products now s req)) rs"
| "added js i s (GetProducts # rs) = added js i s rs"
| "added js i s (GetCart # rs) = added js i s rs"












text \<open>A text field that is absent or empty (falsy), one that is present and has no
  number at its head, and a file part that has a file name.\<close>

definition absent_or_empty :: "string option \<Rightarrow> bool" where
  "absent_or_empty x = (x = None \<or> x = Some [])"

definition unparseable :: "string option \<Rightarrow> bool" where
  "unparseable x = (case x of None \<Rightarrow> False | Some t \<Rightarrow> parseFloat t = NaN)"

definition named_files :: "product_request \<Rightarrow> upfile list" where
  "named_files req = filter (\<lambda>f. originalname f \<noteq> []) (parts req)"

text \<open>A file part the upload accepts on its own.\<close>

definition acceptable :: "upfile \<Rightarrow> bool" where
  "acceptable f =
     (fieldname f = ''images'' \<and>
      mimetype f \<in> set [''image/jpeg'', ''image/png'', ''image/jpg''] \<and>
      size_bytes f \<le> 5242880)"

subsection \<open>Example data\<close>

definition milk_request :: product_request where
  "milk_request =
     \<lparr>body_title = Some ''Milk'', body_price = Some ''2.5'', body_discount = None,
      body_itemType = None, body_rating = None, parts = []\<rparr>"

definition milk :: product where
  "milk =
     \<lparr>product_id = 0, title = ''Milk'', price = Finite (5 / 2), discount = Finite 0,
      itemType = ''regular'', rating = Finite 0, images = [], createdAt = 7\<rparr>"

text \<open>The store after \<open>milk_request\<close> was served at time 7, and the id of its product
  as a request writes it.\<close>

definition shop :: db where
  "shop = \<lparr>products = [milk], cart = [], next_id = 1\<rparr>"

definition milk_id :: string where
  "milk_id = ''000000000000000000000000''"



definition photo :: upfile where
  "photo =
     \<lparr>fieldname = ''images'', originalname = ''milk.png'', mimetype = ''image/png'',
      size_bytes = 2048, path = ''uploads/1700000000000.png''\<rparr>"

definition readme :: upfile where
  "readme =
     \<lparr>fieldname = ''images'', originalname = ''readme.txt'', mimetype = ''text/plain'',
      size_bytes = 10, path = ''uploads/1700000000001.txt''\<rparr>"

definition poster :: upfile where
  "poster =
     \<lparr>fieldname = ''images'', originalname = ''poster.png'', mimetype = ''image/png'',
      size_bytes = 6291456, path = ''uploads/1700000000002.png''\<rparr>"

section \<open>Rounding is exact on the safe integers\<close>






section \<open>Evaluating the example data\<close>

lemma parse_price_milk: "parseFloat ''2.5'' = Finite (5 / 2)"
  by code_simp

lemma parse_abc: "parseFloat ''abc'' = NaN"
  by code_simp

lemma parse_12abc: "parseFloat ''12abc'' = Finite 12"
  by code_simp

lemmas product_route_defs = post_products_def upload_array_def too_long_def fieldSize_def
  fileFilter_def fileSize_def create_product_def save_product_def valid_product_def
  parse_or_zero_def or_regular_def Let_def

lemma milk_created:
  "post_products 7 init_db milk_request =
     (shop, \<lparr>status = 201, json = ProductCreated ''Product created successfully'' milk\<rparr>)"
  by (simp add: product_route_defs milk_request_def parse_price_milk init_db_def shop_def milk_def)

lemma shop_reached: "run js init_db [PostProducts 7 milk_request] = shop"
  by (simp add: milk_created)



lemma milk_id_cast: "castObjectId milk_id = Some 0"
  by code_simp

lemma milk_id_nonempty: "milk_id \<noteq> []"
  by (simp add: milk_id_def)


section \<open>The upload middleware\<close>

lemma fileFilter_None_iff:
  "fileFilter f = None \<longleftrightarrow> mimetype f \<in> set [''image/jpeg'', ''image/png'', ''image/jpg'']"
  by (auto simp: fileFilter_def)

lemma upload_parts_accepts:
  assumes "upload_parts left fs = Inr stored"
  shows "stored = filter (\<lambda>f. originalname f \<noteq> []) fs"
    and "length (filter (\<lambda>f. originalname f \<noteq> []) fs) \<le> left"
    and "list_all acceptable (filter (\<lambda>f. originalname f \<noteq> []) fs)"
  using assms
proof (induction fs arbitrary: left stored)
  case Nil
  {
    case 1 then show ?case by simp
  next
    case 2 then show ?case by simp
  next
    case 3 then show ?case by simp
  }
next
  case (Cons f fs)
  have all: "stored = filter (\<lambda>f. originalname f \<noteq> []) (f # fs) \<and>
      length (filter (\<lambda>f. originalname f \<noteq> []) (f # fs)) \<le> left \<and>
      list_all acceptable (filter (\<lambda>f. originalname f \<noteq> []) (f # fs))"
    if prem: "upload_parts left (f # fs) = Inr stored" for left stored
  proof (cases "originalname f = []")
    case True
    with prem have "upload_parts left fs = Inr stored"
      by simp
    from Cons.IH(1) [OF this] Cons.IH(2) [OF this] Cons.IH(3) [OF this] True show ?thesis
      by simp
  next
    case False
    with prem obtain st where
      f: "fieldname f = ''images''" "left \<noteq> 0" "fileFilter f = None" "size_bytes f \<le> fileSize"
      and rest: "upload_parts (left - 1) fs = Inr st" and st: "stored = f # st"
      by (auto split: if_splits option.splits sum.splits)
    from f have "acceptable f"
      by (simp add: acceptable_def fileFilter_None_iff fileSize_def)
    moreover from f(2) Cons.IH(2) [OF rest]
    have "Suc (length (filter (\<lambda>f. originalname f \<noteq> []) fs)) \<le> left"
      by simp
    ultimately show ?thesis
      using Cons.IH(1) [OF rest] Cons.IH(3) [OF rest] st False by simp
  qed
  {
    case 1 with all show ?case by blast
  next
    case 2 with all show ?case by blast
  next
    case 3 with all show ?case by blast
  }
qed

lemma upload_parts_complete:
  assumes "length (filter (\<lambda>f. originalname f \<noteq> []) fs) \<le> left"
    and "list_all acceptable (filter (\<lambda>f. originalname f \<noteq> []) fs)"
  shows "upload_parts left fs = Inr (filter (\<lambda>f. originalname f \<noteq> []) fs)"
  using assms
proof (induction fs arbitrary: left)
  case Nil
  then show ?case by simp
next
  case (Cons f fs)
  show ?case
  proof (cases "originalname f = []")
    case True
    with Cons show ?thesis by simp
  next
    case False
    with Cons.prems have len: "length (filter (\<lambda>f. originalname f \<noteq> []) fs) \<le> left - 1"
      and rest: "list_all acceptable (filter (\<lambda>f. originalname f \<noteq> []) fs)"
      and left: "left \<noteq> 0" and f: "acceptable f"
      by auto
    have "upload_parts (left - 1) fs = Inr (filter (\<lambda>f. originalname f \<noteq> []) fs)"
      using len rest by (rule Cons.IH)
    moreover from f have "fieldname f = ''images''" "fileFilter f = None" "\<not> fileSize < size_bytes f"
      by (simp_all add: acceptable_def fileFilter_None_iff fileSize_def)
    ultimately show ?thesis
      using False left by simp
  qed
qed

lemma upload_array_accepts:
  assumes "upload_array req = Inr stored"
  shows "stored = named_files req" and "length (named_files req) \<le> 5"
    and "list_all acceptable (named_files req)"
proof -
  from assms have p: "upload_parts 5 (parts req) = Inr stored"
    by (simp add: upload_array_def split: if_splits)
  show "stored = named_files req" and "length (named_files req) \<le> 5"
    and "list_all acceptable (named_files req)"
    unfolding named_files_def
    by (rule upload_parts_accepts [OF p])+
qed

lemma error_middleware_status: "status (error_middleware e) = 400 \<or> status (error_middleware e) = 500"
  by (cases e) simp_all

lemma post_products_rejected:
  "upload_array req = Inl e \<Longrightarrow> post_products now s req = (s, error_middleware e)"
  by (simp add: post_products_def)

lemma post_products_accepted:
  "upload_array req = Inr files \<Longrightarrow>
     post_products now s req = create_product now s req (named_files req)"
  using upload_array_accepts(1) [of req files] by (simp add: post_products_def)

text \<open>
  C7. A request to create a product whose upload is rejected, as it is when it holds
  more than five files, a file that is not an image, or a file over 5 MB, leaves the
  store as it was and is not answered with 201, whatever the rest of the body says. (A
  file is a part that has a file name.)
\<close>

theorem rejected_upload_persists_nothing:
  assumes "(\<exists>e. upload_array req = Inl e) \<or>
           5 < length (named_files req) \<or>
           (\<exists>f \<in> set (named_files req).
              mimetype f \<notin> set [''image/jpeg'', ''image/png'', ''image/jpg''] \<or>
              5242880 < size_bytes f)"
  shows "fst (post_products now s req) = s \<and>
         products (fst (post_products now s req)) = products s \<and>
         status (snd (post_products now s req)) \<noteq> 201"
proof -
  have "\<exists>e. upload_array req = Inl e"
  proof (rule ccontr)
    assume no: "\<not> (\<exists>e. upload_array req = Inl e)"
    then obtain files where "upload_array req = Inr files"
      by (cases "upload_array req") auto
    then have ok: "length (named_files req) \<le> 5" "list_all acceptable (named_files req)"
      by (rule upload_array_accepts)+
    from assms no ok(1) obtain f where "f \<in> set (named_files req)"
      and "mimetype f \<notin> set [''image/jpeg'', ''image/png'', ''image/jpg''] \<or> 5242880 < size_bytes f"
      by auto
    then have "f \<in> set (named_files req)" and "\<not> acceptable f"
      by (auto simp: acceptable_def)
    with ok(2) show False
      by (auto simp: list_all_iff)
  qed
  then obtain e where e: "upload_array req = Inl e" ..
  have "status (error_middleware e) \<noteq> 201"
    using error_middleware_status [of e] by auto
  with e show ?thesis
    by (simp add: post_products_rejected)
qed

theorem rejected_upload_persists_nothing_witness:
  "poster \<in> set (named_files (milk_request\<lparr>parts := [poster]\<rparr>)) \<and>
   5242880 < size_bytes poster \<and>
   fst (post_products 9 shop (milk_request\<lparr>parts := [poster]\<rparr>)) = shop \<and>
   products (fst (post_products 9 shop (milk_request\<lparr>parts := [poster]\<rparr>))) = [milk] \<and>
   snd (post_products 9 shop (milk_request\<lparr>parts := [poster]\<rparr>)) =
     \<lparr>status = 400, json = ErrorJson ''File upload error: File too large''\<rparr>"
proof -
  have big: "5242880 < size_bytes poster"
    by (simp add: poster_def)
  have named: "poster \<in> set (named_files (milk_request\<lparr>parts := [poster]\<rparr>))"
    by (simp add: named_files_def poster_def)
  from big named have "(\<exists>e. upload_array (milk_request\<lparr>parts := [poster]\<rparr>) = Inl e) \<or>
      5 < length (named_files (milk_request\<lparr>parts := [poster]\<rparr>)) \<or>
      (\<exists>f \<in> set (named_files (milk_request\<lparr>parts := [poster]\<rparr>)).
         mimetype f \<notin> set [''image/jpeg'', ''image/png'', ''image/jpg''] \<or>
         5242880 < size_bytes f)"
    by blast
  from rejected_upload_persists_nothing [OF this, of 9 shop]
  have "fst (post_products 9 shop (milk_request\<lparr>parts := [poster]\<rparr>)) = shop"
    and "products (fst (post_products 9 shop (milk_request\<lparr>parts := [poster]\<rparr>))) = products shop"
    by simp_all
  moreover have "snd (post_products 9 shop (milk_request\<lparr>parts := [poster]\<rparr>)) =
     \<lparr>status = 400, json = ErrorJson ''File upload error: File too large''\<rparr>"
    by (simp add: product_route_defs milk_request_def poster_def)
  ultimately show ?thesis
    using big named by (simp add: shop_def)
qed

lemma nameless_part_is_skipped:
  "post_products 9 shop (milk_request\<lparr>body_title := Some ''Tea'', parts := [readme\<lparr>originalname := []\<rparr>]\<rparr>) =
     (\<lparr>products = [milk, milk\<lparr>product_id := 1, title := ''Tea'', createdAt := 9\<rparr>],
       cart = [], next_id = 2\<rparr>,
      \<lparr>status = 201,
       json = ProductCreated ''Product created successfully''
         (milk\<lparr>product_id := 1, title := ''Tea'', createdAt := 9\<rparr>)\<rparr>)"
  by (simp add: product_route_defs milk_request_def readme_def parse_price_milk shop_def milk_def)

text \<open>
  C6. At a request with valid title and price and one attached file of type
  \<open>text/plain\<close>, the filter's error is a plain \<open>Error\<close>, and the error middleware
  answers 500 with \<open>Something went wrong!\<close>, not 400 with \<open>File upload error: ...\<close>.
\<close>

theorem non_image_upload_answers_500:
  "post_products 9 shop (milk_request\<lparr>parts := [readme]\<rparr>) =
     (shop, \<lparr>status = 500, json = ErrorJson ''Something went wrong!''\<rparr>)"
  by (simp add: product_route_defs milk_request_def readme_def)

lemma non_image_first_answers_500:
  assumes "upload_parts 5 (parts req) = Inl (Error m)"
    and "\<not> too_long (body_title req)" and "\<not> too_long (body_price req)"
    and "\<not> too_long (body_discount req)" and "\<not> too_long (body_itemType req)"
    and "\<not> too_long (body_rating req)"
  shows "post_products now s req = (s, \<lparr>status = 500, json = ErrorJson ''Something went wrong!''\<rparr>)"
  using assms by (simp add: post_products_def upload_array_def)

lemma oversized_upload_answers_400:
  "post_products 9 shop (milk_request\<lparr>parts := [poster]\<rparr>) =
     (shop, \<lparr>status = 400, json = ErrorJson ''File upload error: File too large''\<rparr>)"
  by (simp add: product_route_defs milk_request_def poster_def)

lemma sixth_file_answers_400:
  "post_products 9 shop (milk_request\<lparr>parts := [photo, photo, photo, photo, photo, photo]\<rparr>) =
     (shop, \<lparr>status = 400, json = ErrorJson ''File upload error: Unexpected field''\<rparr>)"
  by (simp add: product_route_defs milk_request_def photo_def)

section \<open>Creating a product\<close>

lemma create_product_falsy:
  assumes "absent_or_empty (body_title req) \<or> absent_or_empty (body_price req)"
  shows "create_product now s req files =
     (s, \<lparr>status = 400, json = ErrorJson ''Title and price are required''\<rparr>)"
  using assms by (auto simp: create_product_def absent_or_empty_def split: option.splits)

text \<open>
  C3. A request to create a product whose body has no title or no price, the field
  absent or empty, leaves the store as it was. When the upload middleware accepts the
  request the answer is 400 with \<open>Title and price are required\<close>; when it rejects the
  request the answer is the one of the error middleware.
\<close>

theorem missing_title_or_price:
  assumes "absent_or_empty (body_title req) \<or> absent_or_empty (body_price req)"
  shows "fst (post_products now s req) = s \<and>
         snd (post_products now s req) =
           (case upload_array req of
              Inl e \<Rightarrow> error_middleware e
            | Inr files \<Rightarrow> \<lparr>status = 400, json = ErrorJson ''Title and price are required''\<rparr>)"
  using create_product_falsy [OF assms]
  by (simp add: post_products_def split: sum.splits)

theorem missing_title_or_price_witness:
  "absent_or_empty (body_title (milk_request\<lparr>body_title := Some [], parts := [photo]\<rparr>)) \<and>
   upload_array (milk_request\<lparr>body_title := Some [], parts := [photo]\<rparr>) = Inr [photo] \<and>
   post_products 9 shop (milk_request\<lparr>body_title := Some [], parts := [photo]\<rparr>) =
     (shop, \<lparr>status = 400, json = ErrorJson ''Title and price are required''\<rparr>)"
proof -
  let ?r = "milk_request\<lparr>body_title := Some [], parts := [photo]\<rparr>"
  have a: "absent_or_empty (body_title ?r)"
    by (simp add: absent_or_empty_def)
  have b: "upload_array ?r = Inr [photo]"
    by (simp add: product_route_defs milk_request_def photo_def)
  from a have "absent_or_empty (body_title ?r) \<or> absent_or_empty (body_price ?r)" ..
  from missing_title_or_price [OF this, of 9 shop] a b show ?thesis
    by (simp add: prod_eq_iff)
qed

theorem missing_title_with_oversized_file:
  "absent_or_empty (body_title (milk_request\<lparr>body_title := None, parts := [poster]\<rparr>)) \<and>
   snd (post_products 9 shop (milk_request\<lparr>body_title := None, parts := [poster]\<rparr>)) =
     \<lparr>status = 400, json = ErrorJson ''File upload error: File too large''\<rparr> \<and>
   snd (post_products 9 shop (milk_request\<lparr>body_title := None, parts := [poster]\<rparr>)) \<noteq>
     \<lparr>status = 400, json = ErrorJson ''Title and price are required''\<rparr>"
  by (simp add: product_route_defs milk_request_def poster_def absent_or_empty_def)


section \<open>Listing the products\<close>

lemma find_sorted_mset: "mset (find_sorted ps) = mset ps"
  by (simp add: find_sorted_def)

lemma find_sorted_desc: "sorted_wrt (\<lambda>a b. createdAt b \<le> createdAt a) (find_sorted ps)"
proof -
  have "sorted (map createdAt (sort_key createdAt ps))" by simp
  then have "sorted_wrt (\<lambda>a b. createdAt a \<le> createdAt b) (sort_key createdAt ps)"
    by (simp add: sorted_map)
  then show ?thesis
    by (simp add: find_sorted_def sorted_wrt_rev)
qed

text \<open>
  C4. Whatever the product collection holds and in whatever order it was filled,
  GET /api/products answers 200 with all its products, each as often as it is stored,
  ordered by \<open>createdAt\<close> from the latest to the earliest, and leaves the store as it was.
\<close>

theorem get_products_latest_first:
  "fst (get_products s) = s \<and>
   status (snd (get_products s)) = 200 \<and>
   json (snd (get_products s)) = ProductList (find_sorted (products s)) \<and>
   mset (find_sorted (products s)) = mset (products s) \<and>
   sorted_wrt (\<lambda>a b. createdAt b \<le> createdAt a) (find_sorted (products s))"
  by (simp add: get_products_def find_sorted_mset find_sorted_desc)

theorem get_products_latest_first_witness:
  "json (snd (get_products \<lparr>products = [milk\<lparr>createdAt := 3\<rparr>, milk\<lparr>createdAt := 9\<rparr>, milk\<lparr>createdAt := 5\<rparr>],
                           cart = [], next_id = 3\<rparr>)) =
     ProductList [milk\<lparr>createdAt := 9\<rparr>, milk\<lparr>createdAt := 5\<rparr>, milk\<lparr>createdAt := 3\<rparr>] \<and>
   sorted_wrt (\<lambda>a b. createdAt b \<le> createdAt a)
     (find_sorted [milk\<lparr>createdAt := 3\<rparr>, milk\<lparr>createdAt := 9\<rparr>, milk\<lparr>createdAt := 5\<rparr>])"
  using get_products_latest_first
    [of "\<lparr>products = [milk\<lparr>createdAt := 3\<rparr>, milk\<lparr>createdAt := 9\<rparr>, milk\<lparr>createdAt := 5\<rparr>],
          cart = [], next_id = 3\<rparr>"]
  by (simp add: find_sorted_def)

section \<open>The two collections are written by one route each\<close>

lemma add_to_cart_products: "products (fst (add_to_cart js now s req)) = products s"
  by (simp add: add_to_cart_def update_cart_item_def insert_cart_item_def split: option.splits)

lemma create_product_cart: "cart (fst (create_product now s req files)) = cart s"
  by (simp add: create_product_def save_product_def Let_def split: option.splits)

lemma post_products_cart: "cart (fst (post_products now s req)) = cart s"
  by (simp add: post_products_def create_product_cart split: sum.splits)

text \<open>
  C10. POST /api/cart leaves the product collection as it was, whether it succeeds or
  fails, and POST /api/products leaves the cart collection as it was.
\<close>

theorem routes_keep_the_other_collection:
  "products (fst (add_to_cart js now s creq)) = products s \<and>
   cart (fst (post_products now' s preq)) = cart s"
  by (simp add: add_to_cart_products post_products_cart)

theorem routes_keep_the_other_collection_witness:
  "\<forall>js.
     products (fst (add_to_cart js 8 shop \<lparr>body_productId = Some milk_id, body_quantity = Some (JNumber (Finite 3))\<rparr>)) = [milk] \<and>
     cart (fst (add_to_cart js 8 shop \<lparr>body_productId = Some milk_id, body_quantity = Some (JNumber (Finite 3))\<rparr>)) =
       [\<lparr>cart_id = 1, productId = 0, quantity = Finite 3, addedAt = 8\<rparr>] \<and>
     cart (fst (post_products 9 shop milk_request)) = []"
proof
  fix js
  have "cart (fst (add_to_cart js 8 shop \<lparr>body_productId = Some milk_id, body_quantity = Some (JNumber (Finite 3))\<rparr>)) =
     [\<lparr>cart_id = 1, productId = 0, quantity = Finite 3, addedAt = 8\<rparr>]"
    by code_simp
  with routes_keep_the_other_collection
    [of js 8 shop "\<lparr>body_productId = Some milk_id, body_quantity = Some (JNumber (Finite 3))\<rparr>" 9 milk_request]
  show "products (fst (add_to_cart js 8 shop \<lparr>body_productId = Some milk_id, body_quantity = Some (JNumber (Finite 3))\<rparr>)) = [milk] \<and>
     cart (fst (add_to_cart js 8 shop \<lparr>body_productId = Some milk_id, body_quantity = Some (JNumber (Finite 3))\<rparr>)) =
       [\<lparr>cart_id = 1, productId = 0, quantity = Finite 3, addedAt = 8\<rparr>] \<and>
     cart (fst (post_products 9 shop milk_request)) = []"
    by (simp add: shop_def)
qed

section \<open>The invariant of the store\<close>

lemma db_inv_init: "db_inv init_db"
  by (simp add: db_inv_def init_db_def)

lemma find_Some_mem: "find P xs = Some x \<Longrightarrow> x \<in> set xs \<and> P x"
  by (induction xs) (auto split: if_splits)

lemma db_inv_create_product: "db_inv s \<Longrightarrow> db_inv (fst (create_product now s req files))"
  by (auto simp: db_inv_def create_product_def save_product_def Let_def list_all_iff
      split: option.splits)

lemma db_inv_post_products: "db_inv s \<Longrightarrow> db_inv (fst (post_products now s req))"
  by (simp add: post_products_def db_inv_create_product split: sum.splits)

lemma update_same_productId:
  assumes "distinct (map cart_id cs)" and "x \<in> set cs" and "d \<in> set cs"
    and "cart_id c = cart_id x" and "productId c = productId x"
  shows "productId (if cart_id d = cart_id c then c else d) = productId d"
proof (cases "cart_id d = cart_id c")
  case True
  from assms(1) have "inj_on cart_id (set cs)"
    by (simp add: distinct_map)
  with True assms have "d = x"
    by (auto dest: inj_onD)
  with True assms show ?thesis by simp
next
  case False
  then show ?thesis by simp
qed

lemma db_inv_update:
  assumes "db_inv s" and "findOne (cart s) i = Some found"
  shows "db_inv (update_cart_item s (found\<lparr>quantity := q\<rparr>))"
proof -
  let ?c = "found\<lparr>quantity := q\<rparr>"
  let ?upd = "\<lambda>d. if cart_id d = cart_id ?c then ?c else d"
  from assms(2) have mem: "found \<in> set (cart s)"
    by (auto simp: findOne_def dest: find_Some_mem)
  have ids: "map (cart_id \<circ> ?upd) (cart s) = map cart_id (cart s)"
    by (rule map_cong) auto
  have "\<And>d. d \<in> set (cart s) \<Longrightarrow> productId (?upd d) = productId d"
    using assms(1) mem
    by (intro update_same_productId [of "cart s" found]) (simp_all add: db_inv_def)
  then have pids: "map (productId \<circ> ?upd) (cart s) = map productId (cart s)"
    by (intro map_cong) simp_all
  have lt: "list_all (\<lambda>c. cart_id c < next_id s) (map ?upd (cart s))"
    using assms(1) mem by (auto simp: db_inv_def list_all_iff)
  from assms(1) have "distinct (map cart_id (cart s))" and "distinct (map productId (cart s))"
    by (simp_all add: db_inv_def)
  then have "distinct (map (cart_id \<circ> ?upd) (cart s))"
    and "distinct (map (productId \<circ> ?upd) (cart s))"
    by (simp_all only: ids pids)
  with assms(1) lt show ?thesis
    by (simp add: db_inv_def update_cart_item_def)
qed

lemma db_inv_insert:
  assumes "db_inv s" and "findOne (cart s) i = None"
  shows "db_inv (insert_cart_item (s\<lparr>next_id := Suc (next_id s)\<rparr>)
           \<lparr>cart_id = next_id s, productId = i, quantity = q, addedAt = now\<rparr>)"
proof -
  from assms(2) have "i \<notin> productId ` set (cart s)"
    by (auto simp: findOne_def find_None_iff)
  with assms(1) show ?thesis
    by (auto simp: db_inv_def list_all_iff insert_cart_item_def)
qed

lemma db_inv_next: "db_inv s \<Longrightarrow> db_inv (s\<lparr>next_id := Suc (next_id s)\<rparr>)"
  by (auto simp: db_inv_def list_all_iff)

lemma db_inv_add_to_cart:
  assumes "db_inv s"
  shows "db_inv (fst (add_to_cart js now s req))"
  using assms db_inv_update [OF assms] db_inv_insert [OF assms] db_inv_next [OF assms]
  by (auto simp: add_to_cart_def split: option.splits)

lemma db_inv_handle: "db_inv s \<Longrightarrow> db_inv (fst (handle js s r))"
  by (cases r) (simp_all add: db_inv_post_products db_inv_add_to_cart get_products_def get_cart_def)

lemma db_inv_run: "db_inv s \<Longrightarrow> db_inv (run js s rs)"
  by (induction rs arbitrary: s) (simp_all add: db_inv_handle)

lemma db_inv_reachable: "db_inv (run js init_db rs)"
  by (simp add: db_inv_run db_inv_init)

section \<open>The cart documents of one product\<close>



lemma castObjectId_nonempty: "castObjectId pid = Some i \<Longrightarrow> pid \<noteq> []"
  by (auto simp: castObjectId_def)

lemma names_productD:
  "names_product req = Some i \<Longrightarrow>
     \<exists>pid. body_productId req = Some pid \<and> pid \<noteq> [] \<and> castObjectId pid = Some i"
  by (auto simp: names_product_def dest: castObjectId_nonempty split: option.splits)










section \<open>Adding to the cart\<close>

lemma unknown_product_not_found:
  assumes "names_product req = Some i"
    and "\<forall>p \<in> set (products s). product_id p \<noteq> i"
  shows "add_to_cart js now s req = (s, \<lparr>status = 404, json = ErrorJson ''Product not found''\<rparr>)"
proof -
  from names_productD [OF assms(1)] obtain pid where
    "body_productId req = Some pid" "pid \<noteq> []" "castObjectId pid = Some i"
    by blast
  moreover from assms(2) have "findById (products s) i = None"
    by (simp add: findById_def find_None_iff)
  ultimately show ?thesis
    by (simp add: add_to_cart_def)
qed

lemma no_product_no_change:
  assumes "names_product req = None \<or> (\<exists>i. names_product req = Some i \<and> findById (products s) i = None)"
  shows "fst (add_to_cart js now s req) = s \<and> status (snd (add_to_cart js now s req)) \<in> {400, 404, 500}"
  using assms
  by (auto simp: add_to_cart_def names_product_def split: option.splits)

text \<open>
  C2. At a POST /api/cart whose \<open>productId\<close> is the text \<open>abc\<close>, which is no object id
  and so resolves to no product, the lookup of line 117 throws and the \<open>catch\<close> answers
  500 with \<open>Internal server error\<close>, not 404 with \<open>Product not found\<close>. The store is
  left as it was.
\<close>

theorem malformed_product_id_answers_500:
  "\<forall>js. names_product \<lparr>body_productId = Some ''abc'', body_quantity = None\<rparr> = None \<and>
     add_to_cart js 8 shop \<lparr>body_productId = Some ''abc'', body_quantity = None\<rparr> =
       (shop, \<lparr>status = 500, json = ErrorJson ''Internal server error''\<rparr>)"
  by (intro allI) code_simp

lemma well_formed_unknown_answers_404:
  "add_to_cart js 8 shop \<lparr>body_productId = Some ''0000000000000000000000ff'', body_quantity = None\<rparr> =
     (shop, \<lparr>status = 404, json = ErrorJson ''Product not found''\<rparr>)"
  by code_simp

subsection \<open>Quantities that are integers\<close>









lemma rounding_drops_one:
  "map quantity (lines_of 0 (run js shop
     [PostCart 8 \<lparr>body_productId = Some milk_id, body_quantity = Some (JNumber (Finite 9007199254740992))\<rparr>,
      PostCart 9 \<lparr>body_productId = Some milk_id, body_quantity = Some (JNumber (Finite 1))\<rparr>])) =
     [Finite 9007199254740992]"
  by code_simp

lemma text_quantities_concatenate:
  assumes "cast_other js (JString ''2'') = Some (Finite 2)"
    and "add_other js (Finite 2) (JString ''3'') = JString ''23''"
    and "cast_other js (JString ''23'') = Some (Finite 23)"
  shows "map quantity (lines_of 0 (run js shop
     [PostCart 8 \<lparr>body_productId = Some milk_id, body_quantity = Some (JString ''2'')\<rparr>,
      PostCart 9 \<lparr>body_productId = Some milk_id, body_quantity = Some (JString ''3'')\<rparr>])) =
     [Finite 23]"
  using assms
  by (simp add: add_to_cart_def milk_id_cast shop_def milk_def findById_def findOne_def or_one_def
      cast_number_def add_assign_def insert_cart_item_def update_cart_item_def lines_of_def
      milk_id_nonempty)

subsection \<open>Quantities that are natural numbers\<close>











section \<open>What a created product holds\<close>

lemma post_products_201_accepted:
  assumes "status (snd (post_products now s req)) = 201"
  shows "post_products now s req = create_product now s req (named_files req)"
proof (cases "upload_array req")
  case (Inl e)
  with assms error_middleware_status [of e] show ?thesis
    by (auto simp: post_products_def)
next
  case (Inr files)
  then show ?thesis
    by (rule post_products_accepted)
qed

lemma create_product_201:
  assumes "status (snd (create_product now s req files)) = 201"
  shows "\<exists>t p. body_title req = Some t \<and> body_price req = Some p \<and>
     valid_product
       \<lparr>product_id = next_id s, title = t, price = parseFloat p,
        discount = parse_or_zero (body_discount req), itemType = or_regular (body_itemType req),
        rating = parse_or_zero (body_rating req), images = map path files, createdAt = now\<rparr> \<and>
     create_product now s req files =
       (s\<lparr>next_id := Suc (next_id s),
          products := products s @
            [\<lparr>product_id = next_id s, title = t, price = parseFloat p,
              discount = parse_or_zero (body_discount req), itemType = or_regular (body_itemType req),
              rating = parse_or_zero (body_rating req), images = map path files, createdAt = now\<rparr>]\<rparr>,
        \<lparr>status = 201,
         json = ProductCreated ''Product created successfully''
           \<lparr>product_id = next_id s, title = t, price = parseFloat p,
            discount = parse_or_zero (body_discount req), itemType = or_regular (body_itemType req),
            rating = parse_or_zero (body_rating req), images = map path files, createdAt = now\<rparr>\<rparr>)"
  using assms
  by (auto simp: create_product_def save_product_def Let_def split: option.splits if_splits)

lemma fresh_next_id:
  assumes "db_inv s"
  shows "next_id s \<notin> product_id ` set (products s)" and "next_id s \<notin> cart_id ` set (cart s)"
  using assms by (auto simp: db_inv_def list_all_iff)

text \<open>
  C5. When a request to create a product is answered 201 on a reachable store, one
  product was appended to the collection and is the one in the response; its id is
  that of no stored product or cart document, its \<open>createdAt\<close> is the time of the
  request, and each optional field the request omitted has its default: \<open>discount\<close> 0,
  \<open>itemType\<close> regular, \<open>rating\<close> 0, \<open>images\<close> empty.
\<close>

theorem created_product_defaults:
  assumes "status (snd (post_products now (run js init_db rs) req)) = 201"
  shows "\<exists>p. products (fst (post_products now (run js init_db rs) req)) = products (run js init_db rs) @ [p] \<and>
     json (snd (post_products now (run js init_db rs) req)) = ProductCreated ''Product created successfully'' p \<and>
     product_id p \<notin> product_id ` set (products (run js init_db rs)) \<and>
     product_id p \<notin> cart_id ` set (cart (run js init_db rs)) \<and>
     createdAt p = now \<and>
     (body_discount req = None \<longrightarrow> discount p = Finite 0) \<and>
     (body_itemType req = None \<longrightarrow> itemType p = ''regular'') \<and>
     (body_rating req = None \<longrightarrow> rating p = Finite 0) \<and>
     (parts req = [] \<longrightarrow> images p = [])"
proof -
  let ?s = "run js init_db rs"
  let ?files = "named_files req"
  from assms have eq: "post_products now ?s req = create_product now ?s req ?files"
    by (rule post_products_201_accepted)
  with assms have "status (snd (create_product now ?s req ?files)) = 201"
    by simp
  from create_product_201 [OF this] obtain t p where
    created: "create_product now ?s req ?files =
       (?s\<lparr>next_id := Suc (next_id ?s),
          products := products ?s @
            [\<lparr>product_id = next_id ?s, title = t, price = parseFloat p,
              discount = parse_or_zero (body_discount req), itemType = or_regular (body_itemType req),
              rating = parse_or_zero (body_rating req), images = map path ?files, createdAt = now\<rparr>]\<rparr>,
        \<lparr>status = 201,
         json = ProductCreated ''Product created successfully''
           \<lparr>product_id = next_id ?s, title = t, price = parseFloat p,
            discount = parse_or_zero (body_discount req), itemType = or_regular (body_itemType req),
            rating = parse_or_zero (body_rating req), images = map path ?files, createdAt = now\<rparr>\<rparr>)"
    by blast
  have fresh: "next_id ?s \<notin> product_id ` set (products ?s)" "next_id ?s \<notin> cart_id ` set (cart ?s)"
    using db_inv_reachable [of js rs] by (rule fresh_next_id)+
  show ?thesis
    unfolding eq created using fresh
    by (simp add: parse_or_zero_def or_regular_def named_files_def)
qed

theorem created_product_defaults_witness:
  "status (snd (post_products 9 shop (milk_request\<lparr>body_title := Some ''Tea''\<rparr>))) = 201 \<and>
   (\<exists>p. products (fst (post_products 9 shop (milk_request\<lparr>body_title := Some ''Tea''\<rparr>))) = [milk, p] \<and>
        product_id p \<noteq> product_id milk \<and> createdAt p = 9 \<and> discount p = Finite 0 \<and>
        itemType p = ''regular'' \<and> rating p = Finite 0 \<and> images p = [])"
proof -
  fix js :: coercions
  let ?r = "milk_request\<lparr>body_title := Some ''Tea''\<rparr>"
  have a: "status (snd (post_products 9 shop ?r)) = 201"
    by (simp add: product_route_defs milk_request_def parse_price_milk)
  have omitted: "body_discount ?r = None" "body_itemType ?r = None" "body_rating ?r = None"
    "parts ?r = []"
    by (simp_all add: milk_request_def)
  have stored: "products shop = [milk]"
    by (simp add: shop_def)
  from created_product_defaults
    [of 9 js "[PostProducts 7 milk_request]" ?r, unfolded shop_reached, OF a]
  obtain p where "products (fst (post_products 9 shop ?r)) = products shop @ [p]"
    and "product_id p \<notin> product_id ` set (products shop)"
    and "createdAt p = 9"
    and "body_discount ?r = None \<longrightarrow> discount p = Finite 0"
    and "body_itemType ?r = None \<longrightarrow> itemType p = ''regular''"
    and "body_rating ?r = None \<longrightarrow> rating p = Finite 0"
    and "parts ?r = [] \<longrightarrow> images p = []"
    by (elim exE conjE)
  with omitted stored
  have "products (fst (post_products 9 shop ?r)) = [milk, p] \<and>
        product_id p \<noteq> product_id milk \<and> createdAt p = 9 \<and> discount p = Finite 0 \<and>
        itemType p = ''regular'' \<and> rating p = Finite 0 \<and> images p = []"
    by simp
  with a show ?thesis
    by blast
qed

lemma valid_payload_created:
  assumes "upload_array req = Inr files"
    and "body_title req = Some t" and "t \<noteq> []"
    and "body_price req = Some p" and "parseFloat p \<noteq> NaN"
    and "parse_or_zero (body_discount req) \<noteq> NaN"
    and "or_regular (body_itemType req) \<in> set [''cold'', ''organic'', ''regular'']"
    and "num_le (Finite 0) (parse_or_zero (body_rating req))"
    and "num_le (parse_or_zero (body_rating req)) (Finite 5)"
  shows "status (snd (post_products now s req)) = 201"
proof -
  from assms(5) have "p \<noteq> []"
    by (auto simp: parseFloat_def)
  moreover from assms(8) have "parse_or_zero (body_rating req) \<noteq> NaN"
    by auto
  ultimately show ?thesis
    using assms post_products_accepted [OF assms(1), of now s]
    by (simp add: create_product_def save_product_def valid_product_def Let_def)
qed

section \<open>Numeric fields that do not parse\<close>

lemma create_product_unparseable:
  assumes "unparseable (body_price req) \<or>
           (unparseable (body_discount req) \<and> body_discount req \<noteq> Some []) \<or>
           (unparseable (body_rating req) \<and> body_rating req \<noteq> Some [])"
  shows "status (snd (create_product now s req files)) \<in> {400, 500} \<and>
         products (fst (create_product now s req files)) = products s"
proof -
  have "\<not> valid_product
       \<lparr>product_id = next_id s, title = t, price = parseFloat p,
        discount = parse_or_zero (body_discount req), itemType = or_regular (body_itemType req),
        rating = parse_or_zero (body_rating req), images = map path files, createdAt = now\<rparr>"
    if "body_price req = Some p" for t p
    using assms that
    by (auto simp: valid_product_def parse_or_zero_def unparseable_def split: option.splits)
  then show ?thesis
    by (auto simp: create_product_def save_product_def Let_def split: option.splits)
qed

lemma products_valid_step:
  "list_all valid_product (products s) \<Longrightarrow> list_all valid_product (products (fst (handle js s r)))"
proof (cases r)
  case (PostProducts now req)
  assume v: "list_all valid_product (products s)"
  show ?thesis
  proof (cases "upload_array req")
    case (Inl e)
    with v PostProducts show ?thesis
      by (simp add: post_products_def)
  next
    case (Inr files)
    with v PostProducts show ?thesis
      by (auto simp: post_products_def create_product_def save_product_def Let_def
          split: option.splits)
  qed
qed (simp_all add: add_to_cart_products get_products_def get_cart_def)

lemma products_valid_run:
  "list_all valid_product (products s) \<Longrightarrow> list_all valid_product (products (run js s rs))"
  by (induction rs arbitrary: s) (simp_all add: products_valid_step)

text \<open>
  C9. A request to create a product whose price is present and has no decimal number
  at its head (\<open>parseFloat\<close> gives \<open>NaN\<close>, as it does for the empty text), or whose
  discount or rating is present, not empty and has none, is answered with an error, 400
  or 500, and adds no product; and no product of a reachable store holds \<open>NaN\<close> in a
  numeric field.
\<close>

theorem unparseable_number_creates_nothing:
  assumes "unparseable (body_price req) \<or>
           (unparseable (body_discount req) \<and> body_discount req \<noteq> Some []) \<or>
           (unparseable (body_rating req) \<and> body_rating req \<noteq> Some [])"
  shows "status (snd (post_products now s req)) \<in> {400, 500} \<and>
         products (fst (post_products now s req)) = products s \<and>
         list_all (\<lambda>p. price p \<noteq> NaN \<and> discount p \<noteq> NaN \<and> rating p \<noteq> NaN)
           (products (run js init_db rs))"
proof -
  have "status (snd (post_products now s req)) \<in> {400, 500} \<and>
        products (fst (post_products now s req)) = products s"
  proof (cases "upload_array req")
    case (Inl e)
    with error_middleware_status [of e] show ?thesis
      by (auto simp: post_products_def)
  next
    case (Inr files)
    with create_product_unparseable [OF assms] show ?thesis
      by (simp add: post_products_def)
  qed
  moreover have "list_all valid_product (products (run js init_db rs))"
    by (rule products_valid_run) (simp add: init_db_def)
  then have "list_all (\<lambda>p. price p \<noteq> NaN \<and> discount p \<noteq> NaN \<and> rating p \<noteq> NaN)
      (products (run js init_db rs))"
    by (simp add: list_all_iff valid_product_def)
  ultimately show ?thesis
    by simp
qed

theorem unparseable_number_creates_nothing_witness:
  "unparseable (body_price (milk_request\<lparr>body_price := Some ''abc''\<rparr>)) \<and>
   post_products 9 shop (milk_request\<lparr>body_price := Some ''abc''\<rparr>) =
     (shop\<lparr>next_id := 2\<rparr>, \<lparr>status = 500, json = ErrorJson ''Internal server error''\<rparr>) \<and>
   products (fst (post_products 9 shop (milk_request\<lparr>body_price := Some ''abc''\<rparr>))) = [milk] \<and>
   price milk \<noteq> NaN"
proof -
  fix js :: coercions
  let ?r = "milk_request\<lparr>body_price := Some ''abc''\<rparr>"
  have a: "unparseable (body_price ?r)"
    by (simp add: unparseable_def parse_abc)
  have b: "post_products 9 shop ?r =
     (shop\<lparr>next_id := 2\<rparr>, \<lparr>status = 500, json = ErrorJson ''Internal server error''\<rparr>)"
    by (simp add: product_route_defs milk_request_def parse_abc shop_def)
  from a have "unparseable (body_price ?r) \<or>
      (unparseable (body_discount ?r) \<and> body_discount ?r \<noteq> Some []) \<or>
      (unparseable (body_rating ?r) \<and> body_rating ?r \<noteq> Some [])" ..
  from unparseable_number_creates_nothing
    [OF this, of 9 shop js "[PostProducts 7 milk_request]", unfolded shop_reached] a b
  show ?thesis
    by (simp add: shop_def)
qed

theorem digits_then_letters_is_created:
  "post_products 9 shop (milk_request\<lparr>body_price := Some ''12abc''\<rparr>) =
     (\<lparr>products = [milk, milk\<lparr>product_id := 1, price := Finite 12, createdAt := 9\<rparr>],
       cart = [], next_id = 2\<rparr>,
      \<lparr>status = 201,
       json = ProductCreated ''Product created successfully''
         (milk\<lparr>product_id := 1, price := Finite 12, createdAt := 9\<rparr>)\<rparr>)"
  by (simp add: product_route_defs milk_request_def parse_12abc shop_def milk_def)

lemma no_break_space_is_skipped:
  "parseFloat [CHR 0xC2, CHR 0xA0, CHR ''1'', CHR ''2''] = Finite 12"
  by code_simp

end
